theory Spec2Isabelle
  imports
    Main
    "HOL-Library.Sublist"
    "HOL-Library.Multiset"
    "HOL-Library.Char_ord"
    "HOL-Library.List_Lexorder"
    "HOL-Library.Product_Lexorder"
    "HOL-Library.Option_ord"
begin

section \<open>Strings\<close>

text \<open>
  The script \<^verbatim>\<open>scripts/models.py\<close> works on Python \<^verbatim>\<open>str\<close> values. They are modelled
  as \<^typ>\<open>string\<close>, one \<^typ>\<open>char\<close> per character (code point). Python compares strings
  lexicographically by code point, which is the order of \<^typ>\<open>string\<close> given by the
  character order of the library.
\<close>

text \<open>\<^verbatim>\<open>sub in s\<close> for two strings: \<^verbatim>\<open>sub\<close> occurs in \<^verbatim>\<open>s\<close> as a contiguous block.\<close>

fun str_in :: "string \<Rightarrow> string \<Rightarrow> bool" where
  "str_in sub [] = (sub = [])"
| "str_in sub (c # cs) = (prefix sub (c # cs) \<or> str_in sub cs)"

text \<open>
  \<^verbatim>\<open>s.split(".")\<close>: one segment more than there are dots; never the empty list, so the
  first branch of the \<^theory_text>\<open>case\<close> below is never taken.
\<close>

fun split_dot :: "string \<Rightarrow> string list" where
  "split_dot [] = [[]]"
| "split_dot (c # cs) =
     (if c = CHR ''.'' then [] # split_dot cs
      else (case split_dot cs of
              [] \<Rightarrow> [[c]]
            | seg # segs \<Rightarrow> (c # seg) # segs))"

text \<open>\<^verbatim>\<open>sep.join(parts)\<close>.\<close>

fun join :: "string \<Rightarrow> string list \<Rightarrow> string" where
  "join sep [] = []"
| "join sep [p] = p"
| "join sep (p # q # ps) = p @ sep @ join sep (q # ps)"

text \<open>
  \<^verbatim>\<open>c.upper()\<close> for a string \<^verbatim>\<open>c\<close> of one character is given by the case tables of
  Python, which are not part of the repository. The functions below that need it take it as
  their parameter \<open>upper\<close>, from a character to a string (the upper case of some characters
  has more than one character), and the theorems hold for every such function.

  For a character of ASCII the result is known: the capital letter for the letters \<^verbatim>\<open>a\<close>
  to \<^verbatim>\<open>z\<close>, the character itself otherwise. \<open>ascii_upper\<close> is that function; it is used
  in the examples only, all of whose keys are ASCII, and says nothing about other characters.
\<close>

definition ascii_upper :: "char \<Rightarrow> string" where
  "ascii_upper c =
     (let n = (of_char c :: nat) in if 97 \<le> n \<and> n \<le> 122 then [char_of (n - 32)] else [c])"

section \<open>Errors\<close>

text \<open>The exceptions the script can raise; every one aborts the run.\<close>

datatype py_error =
  AssertionError | IndexError | TypeError | ValueError | AttributeError | ConnectionError

section \<open>Reference filtering\<close>

definition inclusions :: "string list" where
  "inclusions = [''events'', ''event'', ''eventsource'', ''sensor'']"

definition exclusions :: "string list" where
  "exclusions =
     [''io.k8s.api.core.v1.Event'',
      ''io.k8s.api.core.v1.EventSeries'',
      ''io.k8s.api.core.v1.EventSource'']"

text \<open>
  The loop \<^verbatim>\<open>for inclusion in inclusions\<close> of \<^verbatim>\<open>filter_refs_on_models_type\<close>, on the pair
  of its two variables \<^verbatim>\<open>filtered\<close> and \<^verbatim>\<open>events\<close>. For the model type \<^verbatim>\<open>events\<close> the inner
  loop appends to \<^verbatim>\<open>events\<close> every reference that contains the marker; for any other model
  type \<^verbatim>\<open>filtered\<close> is narrowed.
\<close>

fun filter_loop ::
  "string list \<Rightarrow> string \<Rightarrow> string list \<Rightarrow> string list \<times> string list \<Rightarrow> string list \<times> string list"
where
  "filter_loop refs models_type [] (filtered, events) = (filtered, events)"
| "filter_loop refs models_type (inclusion # rest) (filtered, events) =
     (if models_type = ''events''
      then filter_loop refs models_type rest
             (filtered, events @ filter (\<lambda>ref. str_in inclusion ref) refs)
      else filter_loop refs models_type rest
             (filter (\<lambda>r. \<not> str_in inclusion r \<and> r \<notin> set exclusions) filtered, events))"

text \<open>
  \<^verbatim>\<open>list(set(xs))\<close>: the distinct elements of \<^verbatim>\<open>xs\<close>. Python fixes their order by the
  hashes of the strings, which differ from run to run; the model lists them in the order of
  their last occurrence. The theorems below speak about the set of elements and about
  distinctness only, or quantify over every order.
\<close>

definition list_set :: "'a list \<Rightarrow> 'a list" where
  "list_set xs = remdups xs"

definition filter_refs_on_models_type :: "string list \<Rightarrow> string \<Rightarrow> string list" where
  "filter_refs_on_models_type refs models_type =
     (case filter_loop refs models_type inclusions (refs, []) of
        (filtered, events) \<Rightarrow>
          if models_type = ''events'' then list_set events else list_set filtered)"

text \<open>A key carries a marker when one of the four inclusion strings occurs in it.\<close>

definition has_marker :: "string \<Rightarrow> bool" where
  "has_marker k \<longleftrightarrow> (\<exists>m\<in>set inclusions. str_in m k)"

section \<open>Import references\<close>

text \<open>The frozen, ordered dataclass \<^verbatim>\<open>ImportReference\<close>; \<^verbatim>\<open>alias\<close> defaults to \<^verbatim>\<open>None\<close>.\<close>

record ImportReference =
  path :: string
  name :: string
  "alias" :: "string option"

text \<open>
  The test \<^verbatim>\<open>if self.alias\<close>: \<^verbatim>\<open>None\<close> and the empty string are both false.
\<close>

definition truthy :: "string option \<Rightarrow> bool" where
  "truthy a = (case a of None \<Rightarrow> False | Some s \<Rightarrow> s \<noteq> [])"

definition rendered_import :: "ImportReference \<Rightarrow> string" where
  "rendered_import r =
     (let n = (if truthy (alias r) then name r @ '' as '' @ the (alias r) else name r)
      in ''from '' @ path r @ '' import '' @ n @ [CHR 0x0A])"

definition aliased_name :: "ImportReference \<Rightarrow> string" where
  "aliased_name r = (if truthy (alias r) then the (alias r) else name r)"

text \<open>
  The order generated by \<^verbatim>\<open>order=True\<close> compares the tuples
  \<^verbatim>\<open>(path, name, alias)\<close>: the first components that differ decide. Two strings compare
  by code point; \<^verbatim>\<open>None\<close> against a string raises \<^verbatim>\<open>TypeError\<close>. So two references
  can be compared unless they agree on path and name and exactly one of them has an alias.
\<close>

definition ref_key :: "ImportReference \<Rightarrow> string \<times> string \<times> string option" where
  "ref_key r = (path r, name r, alias r)"

definition comparable :: "ImportReference \<Rightarrow> ImportReference \<Rightarrow> bool" where
  "comparable a b \<longleftrightarrow>
     (path a = path b \<and> name a = name b \<longrightarrow> (alias a = None \<longleftrightarrow> alias b = None))"

text \<open>
  \<^verbatim>\<open>sorted(references)\<close>. A sort that decides the order by comparisons has to compare,
  within a group of equal path and name, some reference without alias against some reference
  with one, when the group has both; that comparison raises. Without such a group every
  comparison is defined and the result is the list in ascending order of the tuples.
\<close>

definition sorted_refs :: "ImportReference list \<Rightarrow> py_error + ImportReference list" where
  "sorted_refs rs =
     (if \<forall>a\<in>set rs. \<forall>b\<in>set rs. comparable a b then Inr (sort_key ref_key rs)
      else Inl TypeError)"

section \<open>Command line, retrieval and extraction\<close>

definition model_types :: "string set" where
  "model_types = {''workflows'', ''events''}"

text \<open>
  \<^verbatim>\<open>argv\<close> is \<^verbatim>\<open>sys.argv\<close>: the script's name followed by the positional arguments, so
  two positional arguments make a list of length three. Assertions are enabled (the
  interpreter runs without \<^verbatim>\<open>-O\<close>).
\<close>

definition get_openapi_spec_url :: "string list \<Rightarrow> py_error + string" where
  "get_openapi_spec_url argv =
     (if length argv \<noteq> 3 then Inl AssertionError else Inr (argv ! 1))"

definition get_models_type :: "string list \<Rightarrow> py_error + string" where
  "get_models_type argv =
     (if length argv \<noteq> 3 then Inl AssertionError
      else let arg = argv ! 2 in
        if arg \<notin> model_types then Inl AssertionError else Inr arg)"

text \<open>
  A parsed JSON value as \<^verbatim>\<open>response.json()\<close> returns it: \<^verbatim>\<open>None\<close>, a truth value, a
  number (its value plays no role), a string, a list, or a \<^verbatim>\<open>dict\<close> with its keys in
  document order (the keys of a \<^verbatim>\<open>dict\<close> are pairwise different).
\<close>

datatype json =
  JNull | JBool bool | JNumber | JString string | JArray "json list"
| JObject "(string \<times> json) list"

text \<open>
  The response of \<^verbatim>\<open>requests.get\<close>: \<^verbatim>\<open>payload\<close> is the result of \<^verbatim>\<open>response.json()\<close>, or
  \<^verbatim>\<open>None\<close> when the body does not parse (a \<^verbatim>\<open>JSONDecodeError\<close>, which is a
  \<^verbatim>\<open>ValueError\<close>).
\<close>

record response =
  ok :: bool
  status_code :: int
  payload :: "json option"

text \<open>
  The network is what \<^verbatim>\<open>requests.get\<close> does for each URL: it raises an exception (a
  \<^verbatim>\<open>ValueError\<close> for a string that is no URL, a \<^verbatim>\<open>ConnectionError\<close> for a host out of
  reach, and so on) or it returns a response.
\<close>

definition fetch_openapi_spec ::
  "(string \<Rightarrow> py_error + response) \<Rightarrow> string \<Rightarrow> py_error + json"
where
  "fetch_openapi_spec net url =
     (case net url of
        Inl e \<Rightarrow> Inl e
      | Inr r \<Rightarrow>
          if ok r then (case payload r of None \<Rightarrow> Inl ValueError | Some spec \<Rightarrow> Inr spec)
          else Inl ValueError)"

text \<open>
  \<^verbatim>\<open>assert "definitions" in spec\<close> and then \<^verbatim>\<open>spec["definitions"]\<close>. On a \<^verbatim>\<open>dict\<close> the test
  looks for the key. On a list it looks for the element and on a string for the substring; the
  subscript that follows a successful test raises \<^verbatim>\<open>TypeError\<close>. On \<^verbatim>\<open>None\<close>, a truth value
  or a number the test itself raises \<^verbatim>\<open>TypeError\<close>.
\<close>

definition get_openapi_definitions :: "json \<Rightarrow> py_error + json" where
  "get_openapi_definitions spec =
     (case spec of
        JObject kvs \<Rightarrow>
          (case map_of kvs ''definitions'' of
             None \<Rightarrow> Inl AssertionError
           | Some defs \<Rightarrow> Inr defs)
      | JArray xs \<Rightarrow>
          if JString ''definitions'' \<in> set xs then Inl TypeError else Inl AssertionError
      | JString str \<Rightarrow>
          if str_in ''definitions'' str then Inl TypeError else Inl AssertionError
      | JNull \<Rightarrow> Inl TypeError
      | JBool b \<Rightarrow> Inl TypeError
      | JNumber \<Rightarrow> Inl TypeError)"

text \<open>\<^verbatim>\<open>list(defs.keys())\<close>: only a \<^verbatim>\<open>dict\<close> has the method \<^verbatim>\<open>keys\<close>.\<close>

definition get_refs_from_openapi_definitions :: "json \<Rightarrow> py_error + string list" where
  "get_refs_from_openapi_definitions defs =
     (case defs of
        JObject kvs \<Rightarrow> Inr (map fst kvs)
      | JArray xs \<Rightarrow> Inl AttributeError
      | JString str \<Rightarrow> Inl AttributeError
      | JNull \<Rightarrow> Inl AttributeError
      | JBool b \<Rightarrow> Inl AttributeError
      | JNumber \<Rightarrow> Inl AttributeError)"

section \<open>Import assembly\<close>

definition assemble_root_path_from_models_type :: "string \<Rightarrow> string" where
  "assemble_root_path_from_models_type m_type = ''hera.'' @ m_type @ ''.models''"

text \<open>
  The body of the loop of \<^verbatim>\<open>get_import_paths_from_refs\<close> for one reference.
  \<^verbatim>\<open>split[-1]\<close> exists since \<^verbatim>\<open>split\<close> is never empty; \<^verbatim>\<open>split[-2]\<close> raises
  \<^verbatim>\<open>IndexError\<close> when the reference has no dot; \<^verbatim>\<open>raw_alias[0]\<close> raises it on the empty
  string.
\<close>

definition import_reference ::
  "(char \<Rightarrow> string) \<Rightarrow> string \<Rightarrow> string \<Rightarrow> py_error + ImportReference"
where
  "import_reference upper ref root_path =
     (let split = split_dot ref;
          pth = join ''.'' (butlast split);
          obj = last split
      in if obj \<in> set [''HTTPHeader'', ''LogEntry'']
         then if length split < 2 then Inl IndexError
              else (case split ! (length split - 2) @ obj of
                      [] \<Rightarrow> Inl IndexError
                    | c # cs \<Rightarrow>
                        Inr \<lparr>path = root_path @ ''.'' @ pth, name = obj,
                             alias = Some (upper c @ cs)\<rparr>)
         else Inr \<lparr>path = root_path @ ''.'' @ pth, name = obj, alias = None\<rparr>)"

text \<open>The loop: the references in order, stopping at the first one that raises.\<close>

fun get_import_paths_from_refs ::
  "(char \<Rightarrow> string) \<Rightarrow> string list \<Rightarrow> string \<Rightarrow> py_error + ImportReference list"
where
  "get_import_paths_from_refs upper [] root_path = Inr []"
| "get_import_paths_from_refs upper (ref # refs) root_path =
     (case import_reference upper ref root_path of
        Inl e \<Rightarrow> Inl e
      | Inr r \<Rightarrow>
          (case get_import_paths_from_refs upper refs root_path of
             Inl e \<Rightarrow> Inl e
           | Inr rs \<Rightarrow> Inr (r # rs)))"

section \<open>Generation\<close>

text \<open>The header written first; the URL is its only part that depends on the URL.\<close>

definition header_before_url :: "string \<Rightarrow> string" where
  \<open>header_before_url models_type =
     ''"""[DO NOT EDIT MANUALLY] Auto-generated model classes.'' @ [CHR 0x0A, CHR 0x0A] @
     ''Auto-generated by Hera via `make '' @ models_type @ ''-models`.'' @ [CHR 0x0A] @
     ''OpenAPI spec URL: ''\<close>

definition header_after_url :: string where
  \<open>header_after_url = [CHR 0x0A] @ ''"""'' @ [CHR 0x0A, CHR 0x0A]\<close>

definition header :: "string \<Rightarrow> string \<Rightarrow> string" where
  "header models_type openapi_spec_url =
     header_before_url models_type @ openapi_spec_url @ header_after_url"

definition events_symbols :: "string list" where
  "events_symbols =
     [''Item'', ''Event'', ''EventResponse'', ''GetUserInfoResponse'', ''InfoResponse'',
      ''Version'']"

definition enums :: "string list" where
  "enums =
     [''ImagePullPolicy'', ''TerminationMessagePolicy'', ''Protocol'', ''Scheme'',
      ''Operator'', ''Type'', ''Phase'', ''TypeModel'', ''Effect'', ''OperatorModel'']"

text \<open>The references appended by \<^verbatim>\<open>write_imports\<close>, in the order it appends them.\<close>

definition appended :: "string \<Rightarrow> ImportReference list" where
  "appended models_type =
     (if models_type = ''events''
      then map (\<lambda>event. \<lparr>path = ''hera.events.models.io.argoproj.workflow.v1alpha1'',
                          name = event, alias = None\<rparr>) events_symbols
      else []) @
     map (\<lambda>enum. \<lparr>path = ''hera.'' @ models_type @ ''.models.io.k8s.api.core.v1'',
                   name = enum, alias = None\<rparr>) enums"

text \<open>\<^verbatim>\<open>models_strs\<close>: the quoted aliased names, sorted as strings.\<close>

definition quoted :: "string \<Rightarrow> string" where
  "quoted s = [CHR 0x22] @ s @ [CHR 0x22]"

definition models_strs :: "ImportReference list \<Rightarrow> string list" where
  "models_strs rs = sort (map (\<lambda>r. quoted (aliased_name r)) rs)"

definition export_line :: "ImportReference list \<Rightarrow> string" where
  "export_line rs = [CHR 0x0A] @ ''__all__ = ['' @ join '', '' (models_strs rs) @ '']'' @ [CHR 0x0A]"

text \<open>
  What a call of \<^verbatim>\<open>write_imports\<close> leaves behind: the text of the file
  \<^verbatim>\<open>src/hera/<models_type>/models/__init__.py\<close> (opened with \<^verbatim>\<open>w+\<close>, so earlier content
  is gone; opening is taken to succeed), the caller's list, which the function extends in
  place, and the exception raised, if any. The header is written before the list is
  sorted, so a \<^verbatim>\<open>TypeError\<close> of the sort leaves a file with the header only.
\<close>

record written =
  file_text :: string
  refs_after :: "ImportReference list"
  raised :: "py_error option"

definition write_imports :: "ImportReference list \<Rightarrow> string \<Rightarrow> string \<Rightarrow> written" where
  "write_imports refs models_type openapi_spec_url =
     (let hdr = header models_type openapi_spec_url;
          refs' = refs @ appended models_type
      in case sorted_refs refs' of
           Inl err \<Rightarrow> \<lparr>file_text = hdr, refs_after = refs', raised = Some err\<rparr>
         | Inr srt \<Rightarrow>
             \<lparr>file_text = hdr @ concat (map rendered_import srt) @ export_line refs',
              refs_after = refs', raised = None\<rparr>)"

section \<open>The script\<close>

text \<open>
  The effects of a run on the outside, in order: the retrieval of the specification, the
  writing of the generated file, and the directory walk of \<^verbatim>\<open>ensure_init\<close>, whose details
  are outside this development.
\<close>

datatype effect = HttpGet string | WriteFile string string | EnsureInit

record run =
  trace :: "effect list"
  outcome :: "py_error option"

definition init_path :: "string \<Rightarrow> string" where
  "init_path models_type = ''src/hera/'' @ models_type @ ''/models/__init__.py''"

definition main ::
  "(char \<Rightarrow> string) \<Rightarrow> (string \<Rightarrow> py_error + response) \<Rightarrow> string list \<Rightarrow> run"
where
  "main upper net argv =
     (case get_models_type argv of
        Inl e \<Rightarrow> \<lparr>trace = [], outcome = Some e\<rparr>
      | Inr models_type \<Rightarrow>
     (case get_openapi_spec_url argv of
        Inl e \<Rightarrow> \<lparr>trace = [], outcome = Some e\<rparr>
      | Inr openapi_spec_url \<Rightarrow>
     (case fetch_openapi_spec net openapi_spec_url of
        Inl e \<Rightarrow> \<lparr>trace = [HttpGet openapi_spec_url], outcome = Some e\<rparr>
      | Inr openapi_spec \<Rightarrow>
     (case get_openapi_definitions openapi_spec of
        Inl e \<Rightarrow> \<lparr>trace = [HttpGet openapi_spec_url], outcome = Some e\<rparr>
      | Inr definitions \<Rightarrow>
     (case get_refs_from_openapi_definitions definitions of
        Inl e \<Rightarrow> \<lparr>trace = [HttpGet openapi_spec_url], outcome = Some e\<rparr>
      | Inr refs \<Rightarrow>
     (let filtered_refs = filter_refs_on_models_type refs models_type;
          root_path = assemble_root_path_from_models_type models_type
      in case get_import_paths_from_refs upper filtered_refs root_path of
           Inl e \<Rightarrow> \<lparr>trace = [HttpGet openapi_spec_url], outcome = Some e\<rparr>
         | Inr imports \<Rightarrow>
             (let w = write_imports imports models_type openapi_spec_url;
                  t = [HttpGet openapi_spec_url, WriteFile (init_path models_type) (file_text w)]
              in case raised w of
                   Some e \<Rightarrow> \<lparr>trace = t, outcome = Some e\<rparr>
                 | None \<Rightarrow> \<lparr>trace = t @ [EnsureInit], outcome = None\<rparr>)))))))"

section \<open>Derived notions used in the statements\<close>

text \<open>
  The descriptor that one pass of the loop of \<^verbatim>\<open>get_import_paths_from_refs\<close> builds when
  it does not raise, written with the segments of the key.
\<close>

definition descriptor_of :: "(char \<Rightarrow> string) \<Rightarrow> string \<Rightarrow> string \<Rightarrow> ImportReference" where
  "descriptor_of upper root_path key =
     \<lparr>path = root_path @ ''.'' @ join ''.'' (butlast (split_dot key)),
      name = last (split_dot key),
      alias =
        (if last (split_dot key) \<in> {''HTTPHeader'', ''LogEntry''}
         then let raw = split_dot key ! (length (split_dot key) - 2) @ last (split_dot key)
              in Some (upper (hd raw) @ tl raw)
         else None)\<rparr>"

text \<open>
  The test of \<^verbatim>\<open>sorted(references)\<close>: every two references of the list can be compared.
\<close>

definition sortable :: "ImportReference list \<Rightarrow> bool" where
  "sortable rs \<longleftrightarrow> (\<forall>a\<in>set rs. \<forall>b\<in>set rs. comparable a b)"

text \<open>
  In a descriptor built by the script the presence of an alias is decided by the name.
\<close>

definition alias_by_name :: "ImportReference \<Rightarrow> bool" where
  "alias_by_name r \<longleftrightarrow> (alias r = None \<longleftrightarrow> name r \<notin> {''HTTPHeader'', ''LogEntry''})"

text \<open>
  The last steps of the script, from the filtered references on: the root path, the import
  paths, the writing of the file. An exception of the import assembly ends the run before the
  file is opened.
\<close>

definition generate ::
  "(char \<Rightarrow> string) \<Rightarrow> string list \<Rightarrow> string \<Rightarrow> string \<Rightarrow> py_error + written"
where
  "generate upper filtered_refs models_type openapi_spec_url =
     (case get_import_paths_from_refs upper filtered_refs
             (assemble_root_path_from_models_type models_type) of
        Inl e \<Rightarrow> Inl e
      | Inr imports \<Rightarrow> Inr (write_imports imports models_type openapi_spec_url))"

section \<open>Facts about strings\<close>

lemma str_in_iff: "str_in sub s \<longleftrightarrow> (\<exists>p q. s = p @ sub @ q)"
proof (induction s)
  case Nil
  then show ?case by auto
next
  case (Cons c cs)
  have "sublist sub (c # cs) \<longleftrightarrow> prefix sub (c # cs) \<or> sublist sub cs"
    by (rule sublist_Cons_right)
  with Cons show ?case by (simp add: sublist_def)
qed

lemma split_dot_not_Nil [simp]: "split_dot s \<noteq> []"
  by (induction s) (auto split: list.splits)

lemma length_split_dot: "length (split_dot s) = Suc (count_list s CHR ''.'')"
proof (induction s)
  case Nil
  then show ?case by simp
next
  case (Cons c cs)
  obtain h t where ht: "split_dot cs = h # t"
    by (cases "split_dot cs") auto
  from Cons ht show ?case by auto
qed

lemma join_split_dot: "join ''.'' (split_dot s) = s"
proof (induction s)
  case Nil
  then show ?case by simp
next
  case (Cons c cs)
  obtain h t where ht: "split_dot cs = h # t"
    by (cases "split_dot cs") auto
  show ?case
  proof (cases "c = CHR ''.''")
    case True
    with Cons ht show ?thesis by simp
  next
    case False
    with Cons ht show ?thesis by (cases t) auto
  qed
qed

lemma split_dot_no_dot: "seg \<in> set (split_dot s) \<Longrightarrow> CHR ''.'' \<notin> set seg"
proof (induction s arbitrary: seg)
  case Nil
  then show ?case by simp
next
  case (Cons c cs)
  obtain h t where ht: "split_dot cs = h # t"
    by (cases "split_dot cs") auto
  with Cons show ?case by (auto split: if_splits)
qed

lemma split_dot_single: "length (split_dot s) < 2 \<Longrightarrow> split_dot s = [s]"
proof (induction s)
  case Nil
  then show ?case by simp
next
  case (Cons c cs)
  obtain h t where ht: "split_dot cs = h # t"
    by (cases "split_dot cs") auto
  with Cons show ?case by (auto split: if_splits)
qed

text \<open>A key that ends in a dot and a dot-free symbol: the symbol is the last segment.\<close>

lemma split_dot_append:
  "CHR ''.'' \<notin> set obj \<Longrightarrow> split_dot (pre @ ''.'' @ obj) = split_dot pre @ [obj]"
proof (induction pre)
  case Nil
  have "split_dot obj = [obj]" using Nil
    by (intro split_dot_single) (simp add: length_split_dot)
  then show ?case by simp
next
  case (Cons c cs)
  obtain h t where ht: "split_dot cs = h # t"
    by (cases "split_dot cs") auto
  with Cons show ?case by auto
qed

section \<open>Reference filtering: what the loop computes\<close>

lemma filter_loop_events:
  "filter_loop refs ''events'' incs (f, ev) =
     (f, ev @ concat (map (\<lambda>inc. filter (str_in inc) refs) incs))"
  by (induction incs arbitrary: ev) simp_all

lemma filter_loop_other:
  "mt \<noteq> ''events'' \<Longrightarrow>
   filter_loop refs mt incs (f, ev) =
     (filter (\<lambda>r. (\<forall>inc\<in>set incs. \<not> str_in inc r) \<and> (incs \<noteq> [] \<longrightarrow> r \<notin> set exclusions)) f,
      ev)"
proof (induction incs arbitrary: f)
  case Nil
  then show ?case by simp
next
  case (Cons a incs)
  then show ?case by (auto intro!: filter_cong)
qed

lemma set_filter_events:
  "set (filter_refs_on_models_type refs ''events'') = {k \<in> set refs. has_marker k}"
  by (auto simp: filter_refs_on_models_type_def filter_loop_events list_set_def has_marker_def)

lemma set_filter_other:
  "mt \<noteq> ''events'' \<Longrightarrow>
   set (filter_refs_on_models_type refs mt) =
     {k \<in> set refs. \<not> has_marker k \<and> k \<notin> set exclusions}"
  by (auto simp: filter_refs_on_models_type_def filter_loop_other list_set_def has_marker_def
      inclusions_def)

lemma distinct_filter_refs: "distinct (filter_refs_on_models_type refs mt)"
  by (simp add: filter_refs_on_models_type_def list_set_def split: prod.splits)

lemma has_marker_iff:
  "has_marker k \<longleftrightarrow>
     (\<exists>m\<in>{''events'', ''event'', ''eventsource'', ''sensor''}. \<exists>p q. k = p @ m @ q)"
  by (simp add: has_marker_def inclusions_def str_in_iff)

lemma exclusions_no_marker: "k \<in> set exclusions \<Longrightarrow> \<not> has_marker k"
  by (auto simp: exclusions_def has_marker_def inclusions_def)

lemma set_exclusions:
  "set exclusions =
     {''io.k8s.api.core.v1.Event'', ''io.k8s.api.core.v1.EventSeries'',
      ''io.k8s.api.core.v1.EventSource''}"
  by (simp add: exclusions_def)

lemma pod_no_marker: "\<not> has_marker ''io.k8s.api.core.v1.Pod''"
  by (simp add: has_marker_def inclusions_def)

lemma argo_event_marker: "has_marker ''io.argoproj.events.v1.Event''"
  by (simp add: has_marker_def inclusions_def)

text \<open>
  C1. For every list of definition keys, filtering with the category \<^verbatim>\<open>events\<close> gives a
  list without duplicates, and a key is in it if and only if it is one of the given keys and
  one of \<^verbatim>\<open>events\<close>, \<^verbatim>\<open>event\<close>, \<^verbatim>\<open>eventsource\<close>, \<^verbatim>\<open>sensor\<close> occurs in it as a substring.
\<close>

theorem filter_events_membership:
  "distinct (filter_refs_on_models_type refs ''events'') \<and>
   (k \<in> set (filter_refs_on_models_type refs ''events'') \<longleftrightarrow>
      k \<in> set refs \<and>
      (\<exists>m\<in>{''events'', ''event'', ''eventsource'', ''sensor''}. \<exists>p q. k = p @ m @ q))"
  unfolding has_marker_iff [symmetric]
  by (simp add: distinct_filter_refs set_filter_events)

theorem filter_events_membership_witness:
  "''io.argoproj.events.v1.Event'' \<in>
     set (filter_refs_on_models_type
       [''io.k8s.api.core.v1.Pod'', ''io.argoproj.events.v1.Event''] ''events'') \<and>
   ''io.k8s.api.core.v1.Pod'' \<notin>
     set (filter_refs_on_models_type
       [''io.k8s.api.core.v1.Pod'', ''io.argoproj.events.v1.Event''] ''events'')"
proof -
  let ?refs = "[''io.k8s.api.core.v1.Pod'', ''io.argoproj.events.v1.Event'']"
  have "''io.argoproj.events.v1.Event'' = ''io.argoproj.'' @ ''events'' @ ''.v1.Event''"
    by simp
  then have yes: "\<exists>m\<in>{''events'', ''event'', ''eventsource'', ''sensor''}.
      \<exists>p q. ''io.argoproj.events.v1.Event'' = p @ m @ q"
    by blast
  have no: "\<not> (\<exists>m\<in>{''events'', ''event'', ''eventsource'', ''sensor''}.
      \<exists>p q. ''io.k8s.api.core.v1.Pod'' = p @ m @ q)"
    using pod_no_marker unfolding has_marker_iff .
  show ?thesis
    using filter_events_membership [of ?refs "''io.argoproj.events.v1.Event''"]
      filter_events_membership [of ?refs "''io.k8s.api.core.v1.Pod''"] yes no
    by simp
qed

text \<open>
  C2. For every list of definition keys, filtering with the category \<^verbatim>\<open>workflows\<close> gives a
  list without duplicates; a given key is left out if and only if one of the four markers
  occurs in it as a substring or it is one of the three keys \<^verbatim>\<open>io.k8s.api.core.v1.Event\<close>,
  \<^verbatim>\<open>io.k8s.api.core.v1.EventSeries\<close>, \<^verbatim>\<open>io.k8s.api.core.v1.EventSource\<close>; every other given
  key is in the result, and nothing else is.
\<close>

theorem filter_workflows_membership:
  "distinct (filter_refs_on_models_type refs ''workflows'') \<and>
   (k \<in> set (filter_refs_on_models_type refs ''workflows'') \<longleftrightarrow>
      k \<in> set refs \<and>
      \<not> ((\<exists>m\<in>{''events'', ''event'', ''eventsource'', ''sensor''}. \<exists>p q. k = p @ m @ q) \<or>
         k \<in> {''io.k8s.api.core.v1.Event'', ''io.k8s.api.core.v1.EventSeries'',
               ''io.k8s.api.core.v1.EventSource''}))"
  unfolding has_marker_iff [symmetric] set_exclusions [symmetric]
  by (simp add: distinct_filter_refs set_filter_other)

theorem filter_workflows_membership_witness:
  "''io.k8s.api.core.v1.Pod'' \<in>
     set (filter_refs_on_models_type
       [''io.k8s.api.core.v1.Event'', ''io.k8s.api.core.v1.Pod''] ''workflows'') \<and>
   ''io.k8s.api.core.v1.Event'' \<notin>
     set (filter_refs_on_models_type
       [''io.k8s.api.core.v1.Event'', ''io.k8s.api.core.v1.Pod''] ''workflows'')"
proof -
  let ?refs = "[''io.k8s.api.core.v1.Event'', ''io.k8s.api.core.v1.Pod'']"
  have no: "\<not> (\<exists>m\<in>{''events'', ''event'', ''eventsource'', ''sensor''}.
      \<exists>p q. ''io.k8s.api.core.v1.Pod'' = p @ m @ q)"
    using pod_no_marker unfolding has_marker_iff .
  show ?thesis
    using filter_workflows_membership [of ?refs "''io.k8s.api.core.v1.Pod''"]
      filter_workflows_membership [of ?refs "''io.k8s.api.core.v1.Event''"] no
    by simp
qed

text \<open>
  C3. Filtering is idempotent: for every list of definition keys and every category (so for
  \<^verbatim>\<open>workflows\<close> and for \<^verbatim>\<open>events\<close>), filtering the result of a first filtering with the same
  category gives the same set of keys.
\<close>

theorem filter_idempotent:
  "set (filter_refs_on_models_type (filter_refs_on_models_type refs models_type) models_type) =
   set (filter_refs_on_models_type refs models_type)"
  by (cases "models_type = ''events''") (auto simp: set_filter_events set_filter_other)

theorem filter_idempotent_witness:
  "set (filter_refs_on_models_type
     (filter_refs_on_models_type
        [''io.k8s.api.core.v1.Event'', ''io.argoproj.events.v1.Event'', ''io.k8s.api.core.v1.Pod'']
        ''events'') ''events'') = {''io.argoproj.events.v1.Event''} \<and>
   set (filter_refs_on_models_type
     (filter_refs_on_models_type
        [''io.k8s.api.core.v1.Event'', ''io.argoproj.events.v1.Event'', ''io.k8s.api.core.v1.Pod'']
        ''workflows'') ''workflows'') = {''io.k8s.api.core.v1.Pod''}"
proof -
  let ?refs =
    "[''io.k8s.api.core.v1.Event'', ''io.argoproj.events.v1.Event'', ''io.k8s.api.core.v1.Pod'']"
  have e: "filter_refs_on_models_type ?refs ''events'' = [''io.argoproj.events.v1.Event'']"
    by code_simp
  have w: "filter_refs_on_models_type ?refs ''workflows'' = [''io.k8s.api.core.v1.Pod'']"
    by code_simp
  show ?thesis
    using filter_idempotent [of ?refs "''events''"] filter_idempotent [of ?refs "''workflows''"]
    unfolding e w by simp
qed

text \<open>
  C9. For every list of definition keys, the keys kept for \<^verbatim>\<open>events\<close> and the keys kept for
  \<^verbatim>\<open>workflows\<close> are disjoint, and together they are the given keys without the three
  excluded keys \<^verbatim>\<open>io.k8s.api.core.v1.Event\<close>, \<^verbatim>\<open>io.k8s.api.core.v1.EventSeries\<close> and
  \<^verbatim>\<open>io.k8s.api.core.v1.EventSource\<close>, which are therefore in neither result.
\<close>

theorem filter_categories_partition:
  "set (filter_refs_on_models_type refs ''events'') \<inter>
     set (filter_refs_on_models_type refs ''workflows'') = {} \<and>
   set (filter_refs_on_models_type refs ''events'') \<union>
     set (filter_refs_on_models_type refs ''workflows'') =
     set refs - {''io.k8s.api.core.v1.Event'', ''io.k8s.api.core.v1.EventSeries'',
                 ''io.k8s.api.core.v1.EventSource''}"
  unfolding set_exclusions [symmetric]
  using exclusions_no_marker by (auto simp: set_filter_events set_filter_other)

theorem filter_categories_partition_witness:
  "set (filter_refs_on_models_type
      [''io.k8s.api.core.v1.Event'', ''io.argoproj.events.v1.Event'', ''io.k8s.api.core.v1.Pod'']
      ''events'') \<union>
   set (filter_refs_on_models_type
      [''io.k8s.api.core.v1.Event'', ''io.argoproj.events.v1.Event'', ''io.k8s.api.core.v1.Pod'']
      ''workflows'') =
   {''io.argoproj.events.v1.Event'', ''io.k8s.api.core.v1.Pod''}"
  using filter_categories_partition
    [of "[''io.k8s.api.core.v1.Event'', ''io.argoproj.events.v1.Event'',
          ''io.k8s.api.core.v1.Pod'']"]
  by auto

section \<open>Import assembly: one descriptor per key\<close>

lemma import_reference_ok:
  assumes "key \<noteq> ''HTTPHeader''" "key \<noteq> ''LogEntry''"
  shows "import_reference upper key root_path = Inr (descriptor_of upper root_path key)"
proof (cases "last (split_dot key) \<in> {''HTTPHeader'', ''LogEntry''}")
  case False
  then show ?thesis by (simp add: import_reference_def descriptor_of_def Let_def)
next
  case True
  have len: "\<not> length (split_dot key) < 2"
  proof
    assume "length (split_dot key) < 2"
    then have "split_dot key = [key]" by (rule split_dot_single)
    with True assms show False by simp
  qed
  from True obtain c cs where
    raw: "split_dot key ! (length (split_dot key) - 2) @ last (split_dot key) = c # cs"
    by (cases "split_dot key ! (length (split_dot key) - 2) @ last (split_dot key)") auto
  from True len raw show ?thesis
    by (simp add: import_reference_def descriptor_of_def Let_def)
qed

lemma import_reference_bare:
  "key = ''HTTPHeader'' \<or> key = ''LogEntry'' \<Longrightarrow> import_reference upper key root_path = Inl IndexError"
  by (auto simp: import_reference_def)

lemma get_import_paths_ok:
  assumes "''HTTPHeader'' \<notin> set refs" and "''LogEntry'' \<notin> set refs"
  shows "get_import_paths_from_refs upper refs root_path = Inr (map (descriptor_of upper root_path) refs)"
  using assms
proof (induction refs)
  case Nil
  then show ?case by simp
next
  case (Cons key refs)
  then have "import_reference upper key root_path = Inr (descriptor_of upper root_path key)"
    by (intro import_reference_ok) auto
  with Cons show ?case by simp
qed



text \<open>
  A first character whose upper case has two characters: with the sharp s (code point 223)
  mapped to \<^verbatim>\<open>SS\<close>, the alias of the key made of the sharp s, a dot and \<^verbatim>\<open>LogEntry\<close>
  is \<^verbatim>\<open>SSLogEntry\<close>.
\<close>

lemma import_assembly_two_character_upper:
  assumes "upper (CHR 0xDF) = ''SS''"
  shows "get_import_paths_from_refs upper [CHR 0xDF # ''.LogEntry''] ''r'' =
     Inr [\<lparr>path = ''r.'' @ [CHR 0xDF], name = ''LogEntry'', alias = Some ''SSLogEntry''\<rparr>]"
  using assms by (simp add: import_reference_def Let_def)


section \<open>The command line is checked before the network is used\<close>

text \<open>
  C5. When \<^verbatim>\<open>sys.argv\<close> does not consist of the script name and exactly two positional
  arguments, or when the second positional argument is neither \<^verbatim>\<open>workflows\<close> nor
  \<^verbatim>\<open>events\<close>, the run ends with an \<^verbatim>\<open>AssertionError\<close> and has had no effect at all: in
  particular no retrieval of the specification. This holds whatever the network would do.
\<close>

theorem argument_error_before_network:
  assumes "length argv \<noteq> 3 \<or> argv ! 2 \<notin> {''workflows'', ''events''}"
  shows "main upper net argv = \<lparr>trace = [], outcome = Some AssertionError\<rparr>"
  using assms by (auto simp: main_def get_models_type_def model_types_def Let_def)

theorem argument_error_before_network_witness:
  "main ascii_upper (\<lambda>url. Inl ConnectionError)
       [''models.py'', ''https://example.org/swagger.json'', ''sensors''] =
     \<lparr>trace = [], outcome = Some AssertionError\<rparr> \<and>
   main ascii_upper (\<lambda>url. Inl ConnectionError)
       [''models.py'', ''https://example.org/swagger.json''] =
     \<lparr>trace = [], outcome = Some AssertionError\<rparr>"
  using argument_error_before_network
      [where argv = "[''models.py'', ''https://example.org/swagger.json'', ''sensors'']"
        and net = "\<lambda>url. Inl ConnectionError" and upper = ascii_upper]
    argument_error_before_network
      [where argv = "[''models.py'', ''https://example.org/swagger.json'']"
        and net = "\<lambda>url. Inl ConnectionError" and upper = ascii_upper]
  by simp

text \<open>
  Once the specification is retrieved and its keys are extracted, the rest of the run is
  \<open>generate\<close> on the filtered keys.
\<close>

lemma main_generate:
  assumes "get_models_type argv = Inr mt" and "get_openapi_spec_url argv = Inr url"
    and "fetch_openapi_spec net url = Inr spec" and "get_openapi_definitions spec = Inr defs"
    and "get_refs_from_openapi_definitions defs = Inr refs"
  shows "main upper net argv =
     (case generate upper (filter_refs_on_models_type refs mt) mt url of
        Inl e \<Rightarrow> \<lparr>trace = [HttpGet url], outcome = Some e\<rparr>
      | Inr w \<Rightarrow>
          (case raised w of
             Some e \<Rightarrow>
               \<lparr>trace = [HttpGet url, WriteFile (init_path mt) (file_text w)], outcome = Some e\<rparr>
           | None \<Rightarrow>
               \<lparr>trace = [HttpGet url, WriteFile (init_path mt) (file_text w), EnsureInit],
                outcome = None\<rparr>))"
  using assms by (simp add: main_def generate_def Let_def split: sum.splits option.splits)

text \<open>With two positional arguments and a known category the retrieval is the first effect.\<close>

lemma main_valid_arguments_fetch:
  assumes "length argv = 3" and "argv ! 2 \<in> {''workflows'', ''events''}"
  shows "\<exists>rest. trace (main upper net argv) = HttpGet (argv ! 1) # rest"
  using assms
  by (auto simp: main_def get_models_type_def get_openapi_spec_url_def model_types_def Let_def
      split: sum.splits option.splits)

section \<open>Generation does not depend on the order of the references\<close>

lemma ref_key_inj: "ref_key a = ref_key b \<Longrightarrow> a = b"
  by (cases a, cases b) (simp add: ref_key_def)

lemma sort_refs_cong:
  assumes "mset r1 = mset r2"
  shows "sort_key ref_key r1 = sort_key ref_key r2"
proof (rule sort_key_inj_key_eq)
  show "mset r1 = mset (sort_key ref_key r2)" using assms by simp
  show "inj_on ref_key (set r1)" by (auto intro: inj_onI dest: ref_key_inj)
  show "sorted (map ref_key (sort_key ref_key r2))" by (rule sorted_sort_key)
qed

lemma sorted_refs_cong:
  assumes "mset r1 = mset r2"
  shows "sorted_refs r1 = sorted_refs r2"
proof -
  have "set r1 = set r2" using assms by (rule mset_eq_setD)
  then show ?thesis by (simp add: sorted_refs_def sort_refs_cong [OF assms])
qed

lemma models_strs_cong:
  assumes "mset r1 = mset r2"
  shows "models_strs r1 = models_strs r2"
proof -
  have "mset (map (\<lambda>r. quoted (aliased_name r)) r1) = mset (map (\<lambda>r. quoted (aliased_name r)) r2)"
    using assms by simp
  then have "sort (map (\<lambda>r. quoted (aliased_name r)) r2) = sort (map (\<lambda>r. quoted (aliased_name r)) r1)"
    by (intro properties_for_sort) simp_all
  then show ?thesis
    unfolding models_strs_def by simp
qed

lemma export_line_cong: "mset r1 = mset r2 \<Longrightarrow> export_line r1 = export_line r2"
  by (simp add: export_line_def models_strs_cong [of r1 r2])

lemma refs_after_write_imports [simp]:
  "refs_after (write_imports refs mt url) = refs @ appended mt"
  by (simp add: write_imports_def Let_def split: sum.splits)

lemma raised_write_imports:
  "raised (write_imports refs mt url) = (if sortable (refs @ appended mt) then None else Some TypeError)"
  by (simp add: write_imports_def sorted_refs_def sortable_def Let_def)

lemma file_text_write_imports:
  "file_text (write_imports refs mt url) =
     (if sortable (refs @ appended mt)
      then header mt url @ concat (map rendered_import (sort_key ref_key (refs @ appended mt))) @
           export_line (refs @ appended mt)
      else header mt url)"
  by (simp add: write_imports_def sorted_refs_def sortable_def Let_def)

lemma write_imports_permutation:
  assumes "mset r1 = mset r2"
  shows "\<exists>rest. file_text (write_imports r1 mt u1) = header_before_url mt @ u1 @ rest \<and>
                file_text (write_imports r2 mt u2) = header_before_url mt @ u2 @ rest \<and>
                raised (write_imports r1 mt u1) = raised (write_imports r2 mt u2)"
proof -
  have m: "mset (r1 @ appended mt) = mset (r2 @ appended mt)" using assms by simp
  have s: "sortable (r1 @ appended mt) = sortable (r2 @ appended mt)"
    using mset_eq_setD [OF m] by (simp add: sortable_def)
  show ?thesis
    by (simp add: file_text_write_imports raised_write_imports header_def s
        sort_refs_cong [OF m] export_line_cong [OF m])
qed

lemma get_import_paths_raises:
  assumes "''HTTPHeader'' \<in> set refs \<or> ''LogEntry'' \<in> set refs"
  shows "get_import_paths_from_refs upper refs root_path = Inl IndexError"
  using assms
proof (induction refs)
  case Nil
  then show ?case by simp
next
  case (Cons key refs)
  show ?case
  proof (cases "key = ''HTTPHeader'' \<or> key = ''LogEntry''")
    case True
    then have "import_reference upper key root_path = Inl IndexError"
      by (rule import_reference_bare)
    then show ?thesis by simp
  next
    case False
    then have ok: "import_reference upper key root_path = Inr (descriptor_of upper root_path key)"
      by (intro import_reference_ok) auto
    from False Cons.prems have "''HTTPHeader'' \<in> set refs \<or> ''LogEntry'' \<in> set refs"
      by auto
    then have "get_import_paths_from_refs upper refs root_path = Inl IndexError"
      by (rule Cons.IH)
    with ok show ?thesis by simp
  qed
qed

lemma alias_by_name_descriptor_of: "alias_by_name (descriptor_of upper root_path key)"
  by (simp add: alias_by_name_def descriptor_of_def Let_def)

lemma alias_by_name_appended: "r \<in> set (appended mt) \<Longrightarrow> alias_by_name r"
  by (auto simp: alias_by_name_def appended_def events_symbols_def enums_def split: if_splits)

lemma sortable_alias_by_name: "\<forall>r\<in>set rs. alias_by_name r \<Longrightarrow> sortable rs"
  by (auto simp: sortable_def comparable_def alias_by_name_def)

lemma sortable_pipeline: "sortable (map (descriptor_of upper root_path) refs @ appended mt)"
  by (rule sortable_alias_by_name) (auto simp: alias_by_name_descriptor_of alias_by_name_appended)

text \<open>
  C6. Generation is deterministic. Two runs that start from the same set of filtered keys,
  listed in any two orders (the order of \<^verbatim>\<open>list(set(...))\<close> is not fixed), with the same
  category and any two specification URLs, either both stop with the \<^verbatim>\<open>IndexError\<close> of the
  import assembly before the file is opened, or both complete without exception and
  write files that consist of the same text before the URL, the URL of the run, and the same
  text after it.
\<close>

theorem generation_deterministic:
  assumes "set refs1 = set refs2" and "distinct refs1" and "distinct refs2"
  shows "(generate upper refs1 mt url1 = Inl IndexError \<and> generate upper refs2 mt url2 = Inl IndexError) \<or>
         (\<exists>w1 w2 rest.
            generate upper refs1 mt url1 = Inr w1 \<and> generate upper refs2 mt url2 = Inr w2 \<and>
            raised w1 = None \<and> raised w2 = None \<and>
            file_text w1 = header_before_url mt @ url1 @ rest \<and>
            file_text w2 = header_before_url mt @ url2 @ rest)"
proof (cases "''HTTPHeader'' \<in> set refs1 \<or> ''LogEntry'' \<in> set refs1")
  case True
  with assms(1) have "''HTTPHeader'' \<in> set refs2 \<or> ''LogEntry'' \<in> set refs2" by simp
  with True show ?thesis by (simp add: generate_def get_import_paths_raises)
next
  case False
  let ?root = "assemble_root_path_from_models_type mt"
  let ?i1 = "map (descriptor_of upper ?root) refs1" and ?i2 = "map (descriptor_of upper ?root) refs2"
  from False assms(1)
  have g1: "get_import_paths_from_refs upper refs1 ?root = Inr ?i1"
    and g2: "get_import_paths_from_refs upper refs2 ?root = Inr ?i2"
    by (simp_all add: get_import_paths_ok)
  have "mset refs1 = mset refs2"
    using assms by (simp add: set_eq_iff_mset_eq_distinct)
  then have "mset ?i1 = mset ?i2" by simp
  from write_imports_permutation [OF this, of mt url1 url2]
  obtain rest where
    "file_text (write_imports ?i1 mt url1) = header_before_url mt @ url1 @ rest"
    "file_text (write_imports ?i2 mt url2) = header_before_url mt @ url2 @ rest"
    by blast
  moreover have "raised (write_imports ?i1 mt url1) = None" "raised (write_imports ?i2 mt url2) = None"
    by (simp_all add: raised_write_imports sortable_pipeline)
  ultimately show ?thesis
    by (simp add: generate_def g1 g2)
qed

theorem generation_deterministic_witness:
  "set [''a.Pod'', ''b.Job''] = set [''b.Job'', ''a.Pod''] \<and>
   distinct [''a.Pod'', ''b.Job''] \<and> distinct [''b.Job'', ''a.Pod''] \<and>
   (\<exists>w1 w2 rest.
      generate ascii_upper [''a.Pod'', ''b.Job''] ''workflows'' ''http://one'' = Inr w1 \<and>
      generate ascii_upper [''b.Job'', ''a.Pod''] ''workflows'' ''http://two'' = Inr w2 \<and>
      raised w1 = None \<and> raised w2 = None \<and>
      file_text w1 = header_before_url ''workflows'' @ ''http://one'' @ rest \<and>
      file_text w2 = header_before_url ''workflows'' @ ''http://two'' @ rest)"
proof -
  have h: "set [''a.Pod'', ''b.Job''] = set [''b.Job'', ''a.Pod'']"
    "distinct [''a.Pod'', ''b.Job'']" "distinct [''b.Job'', ''a.Pod'']"
    by auto
  have "get_import_paths_from_refs ascii_upper [''a.Pod'', ''b.Job'']
      (assemble_root_path_from_models_type ''workflows'') =
      Inr (map (descriptor_of ascii_upper (assemble_root_path_from_models_type ''workflows''))
        [''a.Pod'', ''b.Job''])"
    by (rule get_import_paths_ok) simp_all
  then have "generate ascii_upper [''a.Pod'', ''b.Job''] ''workflows'' ''http://one'' \<noteq> Inl IndexError"
    unfolding generate_def by (simp only: sum.case) simp
  with generation_deterministic
      [OF h, of ascii_upper "''workflows''" "''http://one''" "''http://two''"] h
  show ?thesis by blast
qed

section \<open>The generated file\<close>

lemma aliased_name_cases:
  "aliased_name r = (case alias r of None \<Rightarrow> name r | Some a \<Rightarrow> if a = [] then name r else a)"
  by (simp add: aliased_name_def truthy_def split: option.splits)

lemma distinct_appended: "distinct (appended mt)"
  by (auto simp: appended_def events_symbols_def enums_def distinct_map inj_on_def)


text \<open>
  A list that \<^verbatim>\<open>sorted\<close> cannot order: the header is all that reaches the file.
\<close>

lemma write_imports_unsortable_example:
  "raised (write_imports
      [\<lparr>path = ''p'', name = ''n'', alias = None\<rparr>, \<lparr>path = ''p'', name = ''n'', alias = Some ''x''\<rparr>]
      ''workflows'' ''u'') = Some TypeError \<and>
   file_text (write_imports
      [\<lparr>path = ''p'', name = ''n'', alias = None\<rparr>, \<lparr>path = ''p'', name = ''n'', alias = Some ''x''\<rparr>]
      ''workflows'' ''u'') = header ''workflows'' ''u''"
  by (simp add: raised_write_imports file_text_write_imports sortable_def comparable_def)




text \<open>The whole file for one descriptor whose alias is the empty string.\<close>

lemma write_imports_empty_alias_example:
  \<open>file_text (write_imports [\<lparr>path = ''p'', name = ''n'', alias = Some ''''\<rparr>] ''workflows'' ''u'') =
       ''"""[DO NOT EDIT MANUALLY] Auto-generated model classes.'' @ [CHR 0x0A] @
       [CHR 0x0A] @
       ''Auto-generated by Hera via `make workflows-models`.'' @ [CHR 0x0A] @
       ''OpenAPI spec URL: u'' @ [CHR 0x0A] @
       ''"""'' @ [CHR 0x0A] @
       [CHR 0x0A] @
       ''from hera.workflows.models.io.k8s.api.core.v1 import Effect'' @ [CHR 0x0A] @
       ''from hera.workflows.models.io.k8s.api.core.v1 import ImagePullPolicy'' @ [CHR 0x0A] @
       ''from hera.workflows.models.io.k8s.api.core.v1 import Operator'' @ [CHR 0x0A] @
       ''from hera.workflows.models.io.k8s.api.core.v1 import OperatorModel'' @ [CHR 0x0A] @
       ''from hera.workflows.models.io.k8s.api.core.v1 import Phase'' @ [CHR 0x0A] @
       ''from hera.workflows.models.io.k8s.api.core.v1 import Protocol'' @ [CHR 0x0A] @
       ''from hera.workflows.models.io.k8s.api.core.v1 import Scheme'' @ [CHR 0x0A] @
       ''from hera.workflows.models.io.k8s.api.core.v1 import TerminationMessagePolicy'' @ [CHR 0x0A] @
       ''from hera.workflows.models.io.k8s.api.core.v1 import Type'' @ [CHR 0x0A] @
       ''from hera.workflows.models.io.k8s.api.core.v1 import TypeModel'' @ [CHR 0x0A] @
       ''from p import n'' @ [CHR 0x0A] @
       [CHR 0x0A] @
       ''__all__ = ["Effect", "ImagePullPolicy", "Operator", "OperatorModel", "Phase", "Protocol", "Scheme", "TerminationMessagePolicy", "Type", "TypeModel", "n"]'' @ [CHR 0x0A]\<close>
  by code_simp

text \<open>
  C8. For every descriptor list, category and URL, the list that \<^verbatim>\<open>write_imports\<close> goes on
  to sort and emit is the given list, followed for the category \<^verbatim>\<open>events\<close> by the six
  symbols \<^verbatim>\<open>Item\<close>, \<^verbatim>\<open>Event\<close>, \<^verbatim>\<open>EventResponse\<close>, \<^verbatim>\<open>GetUserInfoResponse\<close>,
  \<^verbatim>\<open>InfoResponse\<close>, \<^verbatim>\<open>Version\<close> under the one path
  \<^verbatim>\<open>hera.events.models.io.argoproj.workflow.v1alpha1\<close>, followed by the ten enum symbols
  under the one path \<^verbatim>\<open>hera.<category>.models.io.k8s.api.core.v1\<close>; nothing in it depends
  on what the given list contains.
\<close>

theorem fixed_symbols_appended:
  "refs_after (write_imports refs models_type url) =
     refs @
     (if models_type = ''events''
      then map (\<lambda>s. \<lparr>path = ''hera.events.models.io.argoproj.workflow.v1alpha1'', name = s,
                      alias = None\<rparr>)
             [''Item'', ''Event'', ''EventResponse'', ''GetUserInfoResponse'', ''InfoResponse'',
              ''Version'']
      else []) @
     map (\<lambda>s. \<lparr>path = ''hera.'' @ models_type @ ''.models.io.k8s.api.core.v1'', name = s,
                alias = None\<rparr>)
       [''ImagePullPolicy'', ''TerminationMessagePolicy'', ''Protocol'', ''Scheme'', ''Operator'',
        ''Type'', ''Phase'', ''TypeModel'', ''Effect'', ''OperatorModel'']"
  by (simp add: appended_def events_symbols_def enums_def)


theorem fixed_symbols_appended_witness:
  "refs_after (write_imports [] ''events'' ''u'') =
     [\<lparr>path = ''hera.events.models.io.argoproj.workflow.v1alpha1'', name = ''Item'', alias = None\<rparr>,
      \<lparr>path = ''hera.events.models.io.argoproj.workflow.v1alpha1'', name = ''Event'', alias = None\<rparr>,
      \<lparr>path = ''hera.events.models.io.argoproj.workflow.v1alpha1'', name = ''EventResponse'', alias = None\<rparr>,
      \<lparr>path = ''hera.events.models.io.argoproj.workflow.v1alpha1'', name = ''GetUserInfoResponse'', alias = None\<rparr>,
      \<lparr>path = ''hera.events.models.io.argoproj.workflow.v1alpha1'', name = ''InfoResponse'', alias = None\<rparr>,
      \<lparr>path = ''hera.events.models.io.argoproj.workflow.v1alpha1'', name = ''Version'', alias = None\<rparr>,
      \<lparr>path = ''hera.events.models.io.k8s.api.core.v1'', name = ''ImagePullPolicy'', alias = None\<rparr>,
      \<lparr>path = ''hera.events.models.io.k8s.api.core.v1'', name = ''TerminationMessagePolicy'', alias = None\<rparr>,
      \<lparr>path = ''hera.events.models.io.k8s.api.core.v1'', name = ''Protocol'', alias = None\<rparr>,
      \<lparr>path = ''hera.events.models.io.k8s.api.core.v1'', name = ''Scheme'', alias = None\<rparr>,
      \<lparr>path = ''hera.events.models.io.k8s.api.core.v1'', name = ''Operator'', alias = None\<rparr>,
      \<lparr>path = ''hera.events.models.io.k8s.api.core.v1'', name = ''Type'', alias = None\<rparr>,
      \<lparr>path = ''hera.events.models.io.k8s.api.core.v1'', name = ''Phase'', alias = None\<rparr>,
      \<lparr>path = ''hera.events.models.io.k8s.api.core.v1'', name = ''TypeModel'', alias = None\<rparr>,
      \<lparr>path = ''hera.events.models.io.k8s.api.core.v1'', name = ''Effect'', alias = None\<rparr>,
      \<lparr>path = ''hera.events.models.io.k8s.api.core.v1'', name = ''OperatorModel'', alias = None\<rparr>]"
  using fixed_symbols_appended [of "[]" "''events''" "''u''"] by simp



end
